theory Spec2Isabelle
  imports
    Complex_Main
    "HOL-Library.Product_Lexorder"
    "HOL-Library.List_Lexorder"
    "HOL-Library.Char_ord"
begin

section \<open>Values, errors and missing data\<close>

text \<open>
  The dashboard works on pandas data frames. A cell of a frame is an integer, a
  floating-point number, a text or a missing value (\<open>NaN\<close>, \<open>None\<close> and \<open>pd.NA\<close>
  are one value \<open>NA\<close> here: the code tells them apart nowhere, it only asks
  \<open>notna\<close>). Floating-point numbers are modelled as reals: rounding, overflow to
  infinity and \<open>NaN\<close> arithmetic are outside the model. The only infinity the code
  writes itself, \<open>float('inf')\<close> in \<open>safe_pct\<close>, is a constructor of its own.

  Exceptions are values: a function that can raise returns \<open>error + 'a\<close>.
\<close>

datatype cell = I int | F real | S string | NA

datatype error = KeyError | ValueError | TypeError | OverflowError

section \<open>Recovery analysis (sections/deep\_dives.py)\<close>

text \<open>
  \<open>render_deep_dives\<close> computes, for the French carriers, the total of the chosen metric
  per company and year, and compares the baseline year with the latest one. The model
  starts after the coercions of lines 54 to 63: a row is the company label (missing when
  the label cell is), the year (missing when \<open>to_numeric\<close> gave \<open>NaN\<close>) and the metric
  value after \<open>pd.to_numeric(..., errors='coerce')\<close> (missing when the cell did not parse).
\<close>

type_synonym rec_row = "string option \<times> int option \<times> real option"

text \<open>\<open>Series.sum\<close> of a group: missing values are skipped, the empty sum is 0.\<close>

definition sum_skipna :: "real option list \<Rightarrow> real" where
  "sum_skipna vs = sum_list (concat (map (\<lambda>v. case v of None \<Rightarrow> [] | Some x \<Rightarrow> [x]) vs))"

text \<open>
  \<open>df_fr.groupby([company_col, 'year'])[metric_choice].sum().reset_index()\<close>:
  rows with a missing key are dropped, the groups come out sorted by key.
\<close>

definition agg_company_year :: "rec_row list \<Rightarrow> ((string \<times> int) \<times> real) list" where
  "agg_company_year rows =
     (let keyed = [((c, y), v). (Some c, Some y, v) \<leftarrow> rows]
      in map (\<lambda>k. (k, sum_skipna [v. (k', v) \<leftarrow> keyed, k' = k]))
             (sort (remdups (map fst keyed))))"

definition years_of :: "((string \<times> int) \<times> real) list \<Rightarrow> int list" where
  "years_of agg = sort (remdups (map (\<lambda>((c, y), v). y) agg))"

definition baseline_year_of :: "int list \<Rightarrow> int option" where
  "baseline_year_of years =
     (if 2019 \<in> set years then Some 2019
      else (case years of [] \<Rightarrow> None | y # _ \<Rightarrow> Some y))"

definition latest_year_of :: "int list \<Rightarrow> int option" where
  "latest_year_of years = (if years = [] then None else Some (last years))"

text \<open>\<open>agg[agg['year'] == y].set_index(company_col)[metric_choice]\<close>\<close>

definition year_slice :: "((string \<times> int) \<times> real) list \<Rightarrow> int \<Rightarrow> (string \<times> real) list" where
  "year_slice agg y0 = [(c, v). ((c, y), v) \<leftarrow> agg, y = y0]"

datatype pct = Fin real | PInf

definition safe_pct :: "real \<Rightarrow> real \<Rightarrow> pct" where
  "safe_pct b l = (if b = 0 then (if l > 0 then PInf else Fin 0) else Fin ((l / b) * 100))"

record recovery_row =
  company :: string
  baseline_total :: real
  latest_total :: real
  abs_delta :: real
  pct_recovered :: pct

text \<open>
  \<open>pd.concat([base, last], axis=1, keys=[...]).fillna(0)\<close> is the outer join of the two
  slices on the company, a company absent from one slice getting 0 there; then the two
  derived columns.
\<close>

definition fillna0 :: "(string \<times> real) list \<Rightarrow> string \<Rightarrow> real" where
  "fillna0 sl c = (case map_of sl c of None \<Rightarrow> 0 | Some v \<Rightarrow> v)"

definition recovery_row_of :: "(string \<times> real) list \<Rightarrow> (string \<times> real) list \<Rightarrow> string \<Rightarrow> recovery_row" where
  "recovery_row_of base lst c =
     (let b = fillna0 base c; l = fillna0 lst c
      in \<lparr>company = c, baseline_total = b, latest_total = l,
          abs_delta = l - b, pct_recovered = safe_pct b l\<rparr>)"

definition df_recovery :: "(string \<times> real) list \<Rightarrow> (string \<times> real) list \<Rightarrow> recovery_row list" where
  "df_recovery base lst =
     map (recovery_row_of base lst) (remdups (map fst base @ map fst lst))"

text \<open>
  The whole computation of lines 64 to 88. \<open>None\<close> is the branch
  ``Insufficient yearly data''. When the baseline year is also the latest year, the two
  slices get the same column label, \<open>df_recovery[label]\<close> is then a two-column frame, and
  assigning the difference to the single column \<open>abs_delta\<close> raises \<open>ValueError\<close> (caught
  by the enclosing \<open>try\<close>, which reports that the analysis could not be computed).
  \<open>sort_values(latest, ascending=False)\<close> is modelled as a stable descending sort.
\<close>

definition recovery :: "rec_row list \<Rightarrow> error + recovery_row list option" where
  "recovery rows =
     (let agg = agg_company_year rows;
          years = years_of agg
      in case (baseline_year_of years, latest_year_of years) of
           (Some by, Some ly) \<Rightarrow>
             if by = ly then Inl ValueError
             else Inr (Some (sort_key (\<lambda>r. - latest_total r)
                               (df_recovery (year_slice agg by) (year_slice agg ly))))
         | _ \<Rightarrow> Inr None)"

definition top_companies :: "nat \<Rightarrow> recovery_row list \<Rightarrow> recovery_row list" where
  "top_companies top_n rs = take top_n rs"

text \<open>
  The highlights (lines 101 to 126). Sorting by \<open>pct_recovered\<close> orders the finite
  percentages as numbers and puts the infinite one above them all.
\<close>

fun pct_desc_key :: "pct \<Rightarrow> nat \<times> real" where
  "pct_desc_key PInf = (0, 0)"
| "pct_desc_key (Fin r) = (1, - r)"

fun pct_asc_key :: "pct \<Rightarrow> nat \<times> real" where
  "pct_asc_key (Fin r) = (0, r)"
| "pct_asc_key PInf = (1, 0)"

definition best :: "recovery_row list \<Rightarrow> recovery_row list" where
  "best tc = take 3 (sort_key (\<lambda>r. pct_desc_key (pct_recovered r)) tc)"

definition numeric_pct :: "recovery_row list \<Rightarrow> recovery_row list" where
  "numeric_pct tc = filter (\<lambda>r. pct_recovered r \<noteq> PInf) tc"

definition worst :: "recovery_row list \<Rightarrow> recovery_row list" where
  "worst tc = take 3 (sort_key (\<lambda>r. pct_asc_key (pct_recovered r)) (numeric_pct tc))"

definition infers :: "recovery_row list \<Rightarrow> recovery_row list" where
  "infers tc = filter (\<lambda>r. pct_recovered r = PInf) tc"

text \<open>The total of a company in a year, as the sum over the rows themselves.\<close>

definition total_of :: "rec_row list \<Rightarrow> string \<Rightarrow> int \<Rightarrow> real" where
  "total_of rows c y = sum_skipna [v. (c', y', v) \<leftarrow> rows, c' = Some c, y' = Some y]"

text \<open>A small cohort used to run the analysis: carrier A shrinks, carrier B is new in
  the latest year (one of its two rows has no metric value), carrier C reports zero in
  the baseline year only, and one row has no company label.\<close>

definition w_rows :: "rec_row list" where
  "w_rows = [(Some ''A'', Some 2019, Some 200), (Some ''A'', Some 2024, Some 100),
             (Some ''B'', Some 2024, Some 50), (Some ''B'', Some 2024, None),
             (Some ''C'', Some 2019, Some 0), (None, Some 2024, Some 7)]"

definition w_tab :: "recovery_row list" where
  "w_tab =
     [\<lparr>company = ''A'', baseline_total = 200, latest_total = 100,
         abs_delta = - 100, pct_recovered = Fin 50\<rparr>,
      \<lparr>company = ''B'', baseline_total = 0, latest_total = 50,
         abs_delta = 50, pct_recovered = PInf\<rparr>,
      \<lparr>company = ''C'', baseline_total = 0, latest_total = 0,
         abs_delta = 0, pct_recovered = Fin 0\<rparr>]"

section \<open>Text and integers\<close>

text \<open>
  Python strings are modelled as \<open>string\<close>, one \<open>char\<close> per code point below 256.
  \<open>str.strip()\<close> removes the white space of Python at both ends.
\<close>

definition is_space :: "char \<Rightarrow> bool" where
  "is_space c = ((of_char c :: nat) \<in> {9, 10, 11, 12, 13, 28, 29, 30, 31, 32, 133, 160})"

definition strip :: "string \<Rightarrow> string" where
  "strip s = rev (dropWhile is_space (rev (dropWhile is_space s)))"

definition is_digit :: "char \<Rightarrow> bool" where
  "is_digit c = (48 \<le> (of_char c :: nat) \<and> (of_char c :: nat) \<le> 57)"

definition digit_val :: "char \<Rightarrow> nat" where
  "digit_val c = of_char c - 48"

text \<open>
  \<open>int(s)\<close> of Python on a text: white space around, an optional sign, then decimal
  digits, where single underscores may separate digits.
\<close>

fun digits_ok :: "string \<Rightarrow> bool" where
  "digits_ok [] = False"
| "digits_ok [c] = is_digit c"
| "digits_ok (c # d # r) =
     (is_digit c \<and> (if d = CHR ''_'' then digits_ok r else digits_ok (d # r)))"

definition digits_value :: "string \<Rightarrow> nat" where
  "digits_value body =
     foldl (\<lambda>a c. 10 * a + digit_val c) 0 (filter (\<lambda>c. c \<noteq> CHR ''_'') body)"

definition py_int :: "string \<Rightarrow> int option" where
  "py_int s =
     (let t = strip s;
          (sgn, body) = (case t of
                           [] \<Rightarrow> (1, [])
                         | c # r \<Rightarrow> if c = CHR ''-'' then (- 1, r)
                                    else if c = CHR ''+'' then (1, r) else (1, t))
      in if digits_ok body then Some (sgn * int (digits_value body)) else None)"

text \<open>\<open>str(i)\<close> of Python on an integer: the decimal digits, a minus sign before a
  negative number.\<close>

definition digit_char :: "nat \<Rightarrow> char" where
  "digit_char d =
     (if d = 0 then CHR ''0'' else if d = 1 then CHR ''1'' else if d = 2 then CHR ''2''
      else if d = 3 then CHR ''3'' else if d = 4 then CHR ''4'' else if d = 5 then CHR ''5''
      else if d = 6 then CHR ''6'' else if d = 7 then CHR ''7'' else if d = 8 then CHR ''8''
      else CHR ''9'')"

fun digits_of :: "nat \<Rightarrow> string" where
  "digits_of n =
     (if n < 10 then [digit_char n] else digits_of (n div 10) @ [digit_char (n mod 10)])"

declare digits_of.simps [simp del]

definition str_int :: "int \<Rightarrow> string" where
  "str_int i = (if i < 0 then CHR ''-'' # digits_of (nat (- i)) else digits_of (nat i))"

section \<open>Data frames\<close>

text \<open>
  A column has one dtype: \<open>int64\<close>, \<open>float64\<close> (a missing value is \<open>NaN\<close>) or
  \<open>object\<close> (any cells). A frame is its number of rows and its columns in order.
  Integers are unbounded in the model; the bound of \<open>int64\<close> is checked where a
  conversion to \<open>int64\<close> can fail on it.
\<close>

datatype column = IntCol "int list" | FloatCol "real option list" | ObjCol "cell list"

fun cells :: "column \<Rightarrow> cell list" where
  "cells (IntCol xs) = map I xs"
| "cells (FloatCol xs) = map (\<lambda>v. case v of None \<Rightarrow> NA | Some r \<Rightarrow> F r) xs"
| "cells (ObjCol cs) = cs"

fun is_integer_dtype :: "column \<Rightarrow> bool" where
  "is_integer_dtype (IntCol xs) = True"
| "is_integer_dtype c = False"

fun is_numeric_dtype :: "column \<Rightarrow> bool" where
  "is_numeric_dtype (ObjCol cs) = False"
| "is_numeric_dtype c = True"

record frame =
  nrows :: nat
  columns :: "(string \<times> column) list"

definition get_col :: "frame \<Rightarrow> string \<Rightarrow> column option" where
  "get_col df name = map_of (columns df) name"

definition has_col :: "frame \<Rightarrow> string \<Rightarrow> bool" where
  "has_col df name = (name \<in> set (map fst (columns df)))"

text \<open>\<open>df[name] = col\<close>: an existing column is replaced where it stands, a new one is
  appended.\<close>

definition set_col :: "frame \<Rightarrow> string \<Rightarrow> column \<Rightarrow> frame" where
  "set_col df name col =
     (if has_col df name
      then df\<lparr>columns := map (\<lambda>(n, c). if n = name then (n, col) else (n, c)) (columns df)\<rparr>
      else df\<lparr>columns := columns df @ [(name, col)]\<rparr>)"

text \<open>\<open>df[name] = pd.NA\<close>: an object column of missing values.\<close>

definition na_col :: "nat \<Rightarrow> column" where
  "na_col n = ObjCol (replicate n NA)"

text \<open>\<open>df[mask]\<close>: the rows where the mask holds, in order; dtypes are kept.\<close>

definition select :: "bool list \<Rightarrow> 'a list \<Rightarrow> 'a list" where
  "select m xs = map fst (filter snd (zip xs m))"

fun select_col :: "bool list \<Rightarrow> column \<Rightarrow> column" where
  "select_col m (IntCol xs) = IntCol (select m xs)"
| "select_col m (FloatCol xs) = FloatCol (select m xs)"
| "select_col m (ObjCol cs) = ObjCol (select m cs)"

definition select_rows :: "bool list \<Rightarrow> frame \<Rightarrow> frame" where
  "select_rows m df =
     \<lparr>nrows = length (filter id m),
      columns = map (\<lambda>(n, c). (n, select_col m c)) (columns df)\<rparr>"

text \<open>Errors propagate through sequences of steps.\<close>

definition ebind :: "error + 'a \<Rightarrow> ('a \<Rightarrow> error + 'b) \<Rightarrow> error + 'b" where
  "ebind x f = (case x of Inl e \<Rightarrow> Inl e | Inr v \<Rightarrow> f v)"

fun sequence :: "(error + 'a) list \<Rightarrow> error + 'a list" where
  "sequence [] = Inr []"
| "sequence (x # xs) =
     (case x of Inl e \<Rightarrow> Inl e
      | Inr v \<Rightarrow> (case sequence xs of Inl e \<Rightarrow> Inl e | Inr vs \<Rightarrow> Inr (v # vs)))"

text \<open>
  \<open>Series.astype(int)\<close>: an integer column is itself; otherwise every cell is converted
  (\<open>int(x)\<close>: a float is truncated towards zero, a text is parsed, a missing value
  raises), and the first failure fails the whole conversion.
\<close>

definition int64_ok :: "int \<Rightarrow> bool" where
  "int64_ok i = (- (2 ^ 63) \<le> i \<and> i < 2 ^ 63)"

definition trunc :: "real \<Rightarrow> int" where
  "trunc r = (if 0 \<le> r then \<lfloor>r\<rfloor> else \<lceil>r\<rceil>)"

fun cell_to_int :: "cell \<Rightarrow> error + int" where
  "cell_to_int (I i) = (if int64_ok i then Inr i else Inl OverflowError)"
| "cell_to_int (F r) = Inr (trunc r)"
| "cell_to_int (S s) =
     (case py_int s of None \<Rightarrow> Inl ValueError
      | Some i \<Rightarrow> if int64_ok i then Inr i else Inl OverflowError)"
| "cell_to_int NA = Inl ValueError"

fun astype_int :: "column \<Rightarrow> error + int list" where
  "astype_int (IntCol xs) = Inr xs"
| "astype_int c = sequence (map cell_to_int (cells c))"

section \<open>The store\<close>

text \<open>
  A pandas frame is a mutable object and \<open>df[name] = ...\<close> changes it in place, so the
  functions of \<open>utils/prep.py\<close> are modelled on a store of frames: a reference is an
  index into the store, \<open>df.copy()\<close> allocates a new frame, an assignment to a column
  updates the frame at its reference. A frame built by \<open>df[mask]\<close> is a new object that
  the code never assigns to; it is passed as a value.
\<close>

type_synonym heap = "frame list"

definition copy :: "heap \<Rightarrow> nat \<Rightarrow> heap \<times> nat" where
  "copy h r = (h @ [h ! r], length h)"

definition assign_col :: "heap \<Rightarrow> nat \<Rightarrow> string \<Rightarrow> column \<Rightarrow> heap" where
  "assign_col h r name col = h[r := set_col (h ! r) name col]"

section \<open>Period decomposition (utils/prep.py)\<close>

definition ensure_year_column :: "heap \<Rightarrow> nat \<Rightarrow> heap \<times> nat" where
  "ensure_year_column h r =
     (case get_col (h ! r) ''ANMOIS'' of
        None \<Rightarrow> (assign_col h r ''year'' (na_col (nrows (h ! r))), r)
      | Some c \<Rightarrow>
          if is_integer_dtype c then
            (let (h1, r1) = copy h r;
                 ps = (case c of IntCol xs \<Rightarrow> xs | _ \<Rightarrow> []);
                 h2 = assign_col h1 r1 ''year'' (IntCol (map (\<lambda>p. p div 100) ps));
                 h3 = assign_col h2 r1 ''month'' (IntCol (map (\<lambda>p. p mod 100) ps))
             in (h3, r1))
          else
            (let (h1, r1) = copy h r
             in case astype_int c of
                  Inr ps \<Rightarrow>
                    (let h2 = assign_col h1 r1 ''ANMOIS'' (IntCol ps);
                         h3 = assign_col h2 r1 ''year'' (IntCol (map (\<lambda>p. p div 100) ps));
                         h4 = assign_col h3 r1 ''month'' (IntCol (map (\<lambda>p. p mod 100) ps))
                     in (h4, r1))
                | Inl e \<Rightarrow>
                    (let h2 = assign_col h1 r1 ''year'' (na_col (nrows (h1 ! r1)));
                         h3 = assign_col h2 r1 ''month'' (na_col (nrows (h2 ! r1)))
                     in (h3, r1))))"

text \<open>A two-row frame whose period column holds text, used to run the period
  decomposition.\<close>

definition p_df :: frame where
  "p_df = \<lparr>nrows = 2,
           columns = [(''ANMOIS'', ObjCol [S ''201901'', S ''202412'']),
                      (''CIE_PAX'', IntCol [100, 150])]\<rparr>"

section \<open>Aggregation\<close>

text \<open>
  \<open>groupby\<close> drops the rows whose key is missing and returns the groups sorted by key:
  numbers before texts, as pandas sorts keys of mixed type.
\<close>

fun cell_key :: "cell \<Rightarrow> nat \<times> real \<times> string" where
  "cell_key (I i) = (0, real_of_int i, [])"
| "cell_key (F r) = (0, r, [])"
| "cell_key (S s) = (1, 0, s)"
| "cell_key NA = (2, 0, [])"

definition groupby :: "('k \<Rightarrow> 'o::linorder) \<Rightarrow> ('k \<Rightarrow> bool) \<Rightarrow> 'k list \<Rightarrow> 'v list \<Rightarrow> ('k \<times> 'v list) list" where
  "groupby kf isna keys vals =
     map (\<lambda>k. (k, select (map (\<lambda>k'. k' = k) keys) vals))
         (sort_key kf (remdups (filter (\<lambda>k. \<not> isna k) keys)))"

text \<open>
  The sum of a group skips the missing values and adds the others with Python's \<open>+\<close>:
  numbers add up, texts are concatenated, a number and a text raise \<open>TypeError\<close>. A group
  with no value left sums to zero (\<open>0.0\<close> in a float column).
\<close>

fun py_add :: "cell \<Rightarrow> cell \<Rightarrow> error + cell" where
  "py_add (I a) (I b) = Inr (I (a + b))"
| "py_add (I a) (F b) = Inr (F (real_of_int a + b))"
| "py_add (F a) (I b) = Inr (F (a + real_of_int b))"
| "py_add (F a) (F b) = Inr (F (a + b))"
| "py_add (S a) (S b) = Inr (S (a @ b))"
| "py_add a b = Inl TypeError"

fun fold_add :: "cell \<Rightarrow> cell list \<Rightarrow> error + cell" where
  "fold_add acc [] = Inr acc"
| "fold_add acc (v # vs) = (case py_add acc v of Inl e \<Rightarrow> Inl e | Inr t \<Rightarrow> fold_add t vs)"

definition dropna :: "cell list \<Rightarrow> cell list" where
  "dropna cs = filter (\<lambda>c. c \<noteq> NA) cs"

definition group_sum :: "cell \<Rightarrow> cell list \<Rightarrow> error + cell" where
  "group_sum zero cs = (case dropna cs of [] \<Rightarrow> Inr zero | v # vs \<Rightarrow> fold_add v vs)"

fun zero_of :: "column \<Rightarrow> cell" where
  "zero_of (FloatCol xs) = F 0"
| "zero_of c = I 0"

text \<open>
  The mean of a group skips the missing values too: it is the sum of the others over
  their number, missing when none is left; a text raises \<open>TypeError\<close>.
\<close>

fun num_val :: "cell \<Rightarrow> real option" where
  "num_val (I i) = Some (real_of_int i)"
| "num_val (F r) = Some r"
| "num_val c = None"

definition group_mean :: "cell list \<Rightarrow> error + cell" where
  "group_mean cs =
     (let vs = dropna cs
      in if vs = [] then Inr NA
         else if list_all (\<lambda>v. num_val v \<noteq> None) vs
         then Inr (F (sum_list (map (\<lambda>v. case num_val v of Some r \<Rightarrow> r | None \<Rightarrow> 0) vs)
                       / real (length vs)))
         else Inl TypeError)"

definition agg_groups :: "('v list \<Rightarrow> error + 'a) \<Rightarrow> ('k \<times> 'v list) list \<Rightarrow> error + ('k \<times> 'a) list" where
  "agg_groups f gs =
     sequence (map (\<lambda>(k, vs). case f vs of Inl e \<Rightarrow> Inl e | Inr a \<Rightarrow> Inr (k, a)) gs)"

text \<open>\<open>df.groupby(key)[metric].sum().reset_index()\<close> on the cells of the key column and
  the metric column.\<close>

definition sum_by :: "cell list \<Rightarrow> column \<Rightarrow> error + (cell \<times> cell) list" where
  "sum_by keys c =
     agg_groups (group_sum (zero_of c)) (groupby cell_key (\<lambda>k. k = NA) keys (cells c))"

text \<open>\<open>sort_values(col, ascending=False)\<close>: descending, rows of equal value in their
  former order.\<close>

definition sort_desc :: "('a \<Rightarrow> 'o::linorder) \<Rightarrow> 'a list \<Rightarrow> 'a list" where
  "sort_desc f xs = rev (sort_key f (rev xs))"

section \<open>Filters and tables (utils/prep.py)\<close>

text \<open>
  The \<open>filters\<close> dictionary of \<open>make_tables\<close>: a key that is absent, or present with a
  missing value, is \<open>None\<close>.
\<close>

record filters =
  year_min :: "int option"
  year_max :: "int option"
  countries :: "cell list option"
  nationality :: "string option"

text \<open>
  Comparing a column with an integer: a missing value compares false, a text raises
  \<open>TypeError\<close>.
\<close>

fun ge_cell :: "cell \<Rightarrow> int \<Rightarrow> error + bool" where
  "ge_cell (I i) n = Inr (n \<le> i)"
| "ge_cell (F r) n = Inr (real_of_int n \<le> r)"
| "ge_cell (S s) n = Inl TypeError"
| "ge_cell NA n = Inr False"

fun le_cell :: "cell \<Rightarrow> int \<Rightarrow> error + bool" where
  "le_cell (I i) n = Inr (i \<le> n)"
| "le_cell (F r) n = Inr (r \<le> real_of_int n)"
| "le_cell (S s) n = Inl TypeError"
| "le_cell NA n = Inr False"

definition year_mask :: "column \<Rightarrow> int \<Rightarrow> int \<Rightarrow> error + bool list" where
  "year_mask c ymin ymax =
     ebind (sequence (map (\<lambda>x. ge_cell x ymin) (cells c))) (\<lambda>a.
     ebind (sequence (map (\<lambda>x. le_cell x ymax) (cells c))) (\<lambda>b.
     Inr (map (\<lambda>(p, q). p \<and> q) (zip a b))))"

text \<open>\<open>df[(df['year'] >= ymin) & (df['year'] <= ymax)]\<close>; reading a column that the frame
  does not have raises \<open>KeyError\<close>.\<close>

definition filter_year :: "frame \<Rightarrow> int \<Rightarrow> int \<Rightarrow> error + frame" where
  "filter_year df ymin ymax =
     (case get_col df ''year'' of
        None \<Rightarrow> Inl KeyError
      | Some c \<Rightarrow> ebind (year_mask c ymin ymax) (\<lambda>m. Inr (select_rows m df)))"

text \<open>\<open>df[df[name].isin(values)]\<close>\<close>

definition filter_isin :: "frame \<Rightarrow> string \<Rightarrow> cell list \<Rightarrow> error + frame" where
  "filter_isin df name vs =
     (case get_col df name of
        None \<Rightarrow> Inl KeyError
      | Some c \<Rightarrow> Inr (select_rows (map (\<lambda>x. x \<in> set vs) (cells c)) df))"

text \<open>\<open>df[df[name] == value]\<close> for a text value\<close>

definition filter_eq :: "frame \<Rightarrow> string \<Rightarrow> string \<Rightarrow> error + frame" where
  "filter_eq df name v =
     (case get_col df name of
        None \<Rightarrow> Inl KeyError
      | Some c \<Rightarrow> Inr (select_rows (map (\<lambda>x. x = S v) (cells c)) df))"

text \<open>Lines 47 to 58 of \<open>make_tables\<close>: each filter is applied when it is given, and the
  two column filters only when their column exists.\<close>

definition apply_filters :: "frame \<Rightarrow> filters \<Rightarrow> error + frame" where
  "apply_filters df flt =
     ebind (case (year_min flt, year_max flt) of
              (Some ymin, Some ymax) \<Rightarrow> filter_year df ymin ymax
            | _ \<Rightarrow> Inr df) (\<lambda>df1.
     ebind (case countries flt of
              Some (v # vs) \<Rightarrow>
                if has_col df1 ''CIE_PAYS'' then filter_isin df1 ''CIE_PAYS'' (v # vs) else Inr df1
            | _ \<Rightarrow> Inr df1) (\<lambda>df2.
     (case nationality flt of
        Some (ch # rest) \<Rightarrow>
          if has_col df2 ''CIE_NAT'' then filter_eq df2 ''CIE_NAT'' (ch # rest) else Inr df2
      | _ \<Rightarrow> Inr df2)))"

text \<open>Lines 62 to 68: the metric column is the requested metric when it names a numeric
  column; otherwise \<open>CIE_PAX\<close> when the frame has that column, otherwise the first
  numeric column, otherwise none.\<close>

definition numeric_cols :: "frame \<Rightarrow> string list" where
  "numeric_cols df = map fst (filter (\<lambda>(n, c). is_numeric_dtype c) (columns df))"

definition metric_valid :: "frame \<Rightarrow> string option \<Rightarrow> bool" where
  "metric_valid df metric =
     (case metric of
        Some (ch # rest) \<Rightarrow>
          (case get_col df (ch # rest) of Some c \<Rightarrow> is_numeric_dtype c | None \<Rightarrow> False)
      | _ \<Rightarrow> False)"

definition pick_metric_col :: "frame \<Rightarrow> string option \<Rightarrow> string option" where
  "pick_metric_col df metric =
     (if metric_valid df metric then metric
      else if has_col df ''CIE_PAX'' then Some ''CIE_PAX''
      else (case numeric_cols df of [] \<Rightarrow> None | n # _ \<Rightarrow> Some n))"

text \<open>
  The three tables. A table is the list of its rows, key first; \<open>pd.DataFrame()\<close> is the
  empty list. Selecting the grouping column itself as the metric raises (\<open>reset_index\<close>
  cannot insert a column that exists; \<open>agg\<close> does not find the grouping column). The two
  optional descriptive columns of \<open>by_region\<close> (\<open>CIE_PAYS_EN\<close>, \<open>CIE_PAYS_ISO3\<close>, the
  first non-missing label of each group) change neither the keys, the sums nor the
  order, and are left out of the table.
\<close>

record tables =
  timeseries :: "(cell \<times> cell) list"
  by_region :: "(cell \<times> cell) list"
  geo :: "((cell \<times> cell) \<times> cell) list"

definition make_timeseries :: "frame \<Rightarrow> string option \<Rightarrow> error + (cell \<times> cell) list" where
  "make_timeseries df mc =
     (case (get_col df ''year'', mc) of
        (Some yc, Some (ch # rest)) \<Rightarrow>
          if dropna (cells yc) = [] then Inr []
          else if ch # rest = ''year'' then Inl ValueError
          else (case get_col df (ch # rest) of
                  None \<Rightarrow> Inl KeyError
                | Some c \<Rightarrow> sum_by (cells yc) c)
      | _ \<Rightarrow> Inr [])"

definition make_by_region :: "frame \<Rightarrow> string option \<Rightarrow> error + (cell \<times> cell) list" where
  "make_by_region df mc =
     (case (get_col df ''CIE_PAYS'', mc) of
        (Some kc, Some (ch # rest)) \<Rightarrow>
          if ch # rest = ''CIE_PAYS'' then Inl KeyError
          else (case get_col df (ch # rest) of
                  None \<Rightarrow> Inl KeyError
                | Some c \<Rightarrow> ebind (sum_by (cells kc) c)
                             (\<lambda>t. Inr (sort_desc (\<lambda>(k, v). cell_key v) t)))
      | _ \<Rightarrow> Inr [])"

definition make_geo :: "frame \<Rightarrow> string option \<Rightarrow> error + ((cell \<times> cell) \<times> cell) list" where
  "make_geo df mc =
     (case (get_col df ''lat'', get_col df ''lon'', mc) of
        (Some la, Some lo, Some (ch # rest)) \<Rightarrow>
          if ch # rest = ''lat'' \<or> ch # rest = ''lon'' then Inl ValueError
          else (case get_col df (ch # rest) of
                  None \<Rightarrow> Inl KeyError
                | Some c \<Rightarrow>
                    agg_groups (group_sum (zero_of c))
                      (groupby (\<lambda>(a, b). (cell_key a, cell_key b)) (\<lambda>(a, b). a = NA \<or> b = NA)
                         (zip (cells la) (cells lo)) (cells c)))
      | _ \<Rightarrow> Inr [])"

definition tables_of :: "frame \<Rightarrow> string option \<Rightarrow> error + tables" where
  "tables_of df metric =
     (let mc = pick_metric_col df metric
      in ebind (make_timeseries df mc) (\<lambda>ts.
         ebind (make_by_region df mc) (\<lambda>br.
         ebind (make_geo df mc) (\<lambda>g.
         Inr \<lparr>timeseries = ts, by_region = br, geo = g\<rparr>))))"

text \<open>
  \<open>make_tables\<close>: the argument is copied, the copy gets its year and month columns, the
  filters and the tables are computed from it. The result is the store after the call
  and either the tables or the exception raised.
\<close>

definition make_tables :: "heap \<Rightarrow> nat \<Rightarrow> filters \<Rightarrow> string option \<Rightarrow> heap \<times> (error + tables)" where
  "make_tables h r flt metric =
     (let (h1, r1) = copy h r;
          (h2, r2) = ensure_year_column h1 r1
      in (h2, ebind (apply_filters (h2 ! r2) flt) (\<lambda>df. tables_of df metric)))"

text \<open>
  \<open>filter_and_make\<close>: the \<open>filters\<close> dictionary gets a key only for an argument that is
  given (both year bounds, a non-empty list of countries, a non-empty nationality). The
  filtered frame is then computed a second time, where the country filter reads
  \<open>CIE_PAYS\<close> without asking whether the frame has that column (line 123).
\<close>

definition filters_of :: "int option \<Rightarrow> int option \<Rightarrow> cell list option \<Rightarrow> string option \<Rightarrow> filters" where
  "filters_of ymin ymax cs natio =
     \<lparr>year_min = (case (ymin, ymax) of (Some a, Some b) \<Rightarrow> Some a | _ \<Rightarrow> None),
      year_max = (case (ymin, ymax) of (Some a, Some b) \<Rightarrow> Some b | _ \<Rightarrow> None),
      countries = (case cs of Some (v # vs) \<Rightarrow> Some (v # vs) | _ \<Rightarrow> None),
      nationality = (case natio of Some (ch # rest) \<Rightarrow> Some (ch # rest) | _ \<Rightarrow> None)\<rparr>"

definition filter_rows :: "frame \<Rightarrow> filters \<Rightarrow> error + frame" where
  "filter_rows df flt =
     ebind (case (year_min flt, year_max flt) of
              (Some a, Some b) \<Rightarrow> filter_year df a b
            | _ \<Rightarrow> Inr df) (\<lambda>d1.
     ebind (case countries flt of
              Some l \<Rightarrow> filter_isin d1 ''CIE_PAYS'' l
            | None \<Rightarrow> Inr d1) (\<lambda>d2.
     (case nationality flt of
        Some n \<Rightarrow> if has_col d2 ''CIE_NAT'' then filter_eq d2 ''CIE_NAT'' n else Inr d2
      | None \<Rightarrow> Inr d2)))"

definition filter_and_make ::
  "heap \<Rightarrow> nat \<Rightarrow> int option \<Rightarrow> int option \<Rightarrow> cell list option \<Rightarrow> string option \<Rightarrow> string option
   \<Rightarrow> heap \<times> (error + frame \<times> tables)" where
  "filter_and_make h r ymin ymax cs metric natio =
     (let (h1, r1) = copy h r;
          (h2, r2) = ensure_year_column h1 r1;
          flt = filters_of ymin ymax cs natio;
          (h3, res) = make_tables h2 r2 flt metric
      in case res of
           Inl e \<Rightarrow> (h3, Inl e)
         | Inr tabs \<Rightarrow>
             (let (h4, r4) = copy h3 r2;
                  (h5, r5) = ensure_year_column h4 r4
              in (h5, ebind (filter_rows (h5 ! r5) flt) (\<lambda>d. Inr (d, tabs)))))"

text \<open>The frame that \<open>make_tables\<close> filters and aggregates: the copy of its argument,
  with the year and month columns.\<close>

definition prepared :: "heap \<Rightarrow> nat \<Rightarrow> frame" where
  "prepared h r =
     (let (h1, r1) = copy h r;
          (h2, r2) = ensure_year_column h1 r1
      in h2 ! r2)"

text \<open>A frame in which no rows remain: every column is empty.\<close>

definition no_rows :: "frame \<Rightarrow> bool" where
  "no_rows df = list_all (\<lambda>(n, c). cells c = []) (columns df)"

text \<open>Two small datasets used to run the pipeline: one with every column the pipeline
  knows, one without the country column.\<close>

definition c2_df :: frame where
  "c2_df = \<lparr>nrows = 3,
            columns = [(''ANMOIS'', IntCol [201901, 201902, 202001]),
                       (''CIE_PAYS'', ObjCol [S ''FRANCE'', S ''ITALIE'', S ''FRANCE'']),
                       (''CIE_NAT'', ObjCol [S ''F'', S ''E'', S ''F'']),
                       (''CIE_PAX'', FloatCol [Some 10, None, Some 30])]\<rparr>"

definition c7_df :: frame where
  "c7_df = \<lparr>nrows = 2,
            columns = [(''ANMOIS'', IntCol [201901, 202001]),
                       (''CIE_PAX'', IntCol [100, 150])]\<rparr>"

definition no_filters :: filters where
  "no_filters = \<lparr>year_min = None, year_max = None, countries = None, nationality = None\<rparr>"

text \<open>A dataset without the period column: on it \<open>_ensure_year_column\<close> assigns to its
  argument in place.\<close>

definition no_period_df :: frame where
  "no_period_df = \<lparr>nrows = 1, columns = [(''CIE_PAX'', IntCol [100])]\<rparr>"

text \<open>What \<open>make_tables\<close> works on for the first dataset, without filters and with a
  year filter that no row passes.\<close>

definition c2_prepared :: frame where
  "c2_prepared = \<lparr>nrows = 3,
            columns = [(''ANMOIS'', IntCol [201901, 201902, 202001]),
                       (''CIE_PAYS'', ObjCol [S ''FRANCE'', S ''ITALIE'', S ''FRANCE'']),
                       (''CIE_NAT'', ObjCol [S ''F'', S ''E'', S ''F'']),
                       (''CIE_PAX'', FloatCol [Some 10, None, Some 30]),
                       (''year'', IntCol [2019, 2019, 2020]),
                       (''month'', IntCol [1, 2, 1])]\<rparr>"

definition c2_empty :: frame where
  "c2_empty = \<lparr>nrows = 0,
            columns = [(''ANMOIS'', IntCol []), (''CIE_PAYS'', ObjCol []), (''CIE_NAT'', ObjCol []),
                       (''CIE_PAX'', FloatCol []), (''year'', IntCol []), (''month'', IntCol [])]\<rparr>"

definition late_filters :: filters where
  "late_filters = \<lparr>year_min = Some 2022, year_max = Some 2023, countries = None, nationality = None\<rparr>"

section \<open>Seasonality matrix (utils/viz.py)\<close>

text \<open>
  \<open>heatmap_seasonality\<close> up to the matrix it draws (lines 218 to 261). The outcome is a
  message (nothing is drawn) or the pivot: its years, in ascending order, and for each
  year the cells of the months 1 to 12. \<open>aggfunc\<close> is the text the caller passes: the
  mean when it is \<open>'mean'\<close>, the sum otherwise. \<open>years_limit\<close> is \<open>None\<close> or a number of
  years.
\<close>

datatype heat = Info string | Matrix "int list" "cell list list"

text \<open>\<open>(tmp['ANMOIS'] // 100).astype(int)\<close> and \<open>(tmp['ANMOIS'] % 100).astype(int)\<close> when the
  conversion of the period column to integers has failed and the column is as it
  was: floor division and remainder cell by cell (a text raises \<open>TypeError\<close>, a missing
  value stays missing), then the conversion of the results.\<close>

fun floordiv100 :: "cell \<Rightarrow> error + cell" where
  "floordiv100 (I i) = Inr (I (i div 100))"
| "floordiv100 (F r) = Inr (F (of_int \<lfloor>r / 100\<rfloor>))"
| "floordiv100 (S s) = Inl TypeError"
| "floordiv100 NA = Inr NA"

fun mod100 :: "cell \<Rightarrow> error + cell" where
  "mod100 (I i) = Inr (I (i mod 100))"
| "mod100 (F r) = Inr (F (r - 100 * of_int \<lfloor>r / 100\<rfloor>))"
| "mod100 (S s) = Inl TypeError"
| "mod100 NA = Inr NA"

definition year_month_of :: "column \<Rightarrow> error + (int list \<times> int list)" where
  "year_month_of c =
     (case astype_int c of
        Inr ps \<Rightarrow> Inr (map (\<lambda>p. p div 100) ps, map (\<lambda>p. p mod 100) ps)
      | Inl e \<Rightarrow>
          ebind (sequence (map (\<lambda>x. ebind (floordiv100 x) cell_to_int) (cells c))) (\<lambda>ys.
          ebind (sequence (map (\<lambda>x. ebind (mod100 x) cell_to_int) (cells c))) (\<lambda>ms.
          Inr (ys, ms))))"

text \<open>Lines 238 to 241: keep the rows of the last \<open>years_limit\<close> years.\<close>

definition years_window :: "nat option \<Rightarrow> int list \<Rightarrow> bool list" where
  "years_window years_limit ys =
     (case years_limit of
        None \<Rightarrow> map (\<lambda>y. True) ys
      | Some n \<Rightarrow>
          if n = 0 \<or> ys = [] then map (\<lambda>y. True) ys
          else map (\<lambda>y. Max (set ys) - (int n - 1) \<le> y \<and> y \<le> Max (set ys)) ys)"

text \<open>Lines 244 to 247: the groups by year and month, reduced by the mean or the sum.\<close>

definition agg_year_month ::
  "string \<Rightarrow> (int \<times> int) list \<Rightarrow> column \<Rightarrow> bool list \<Rightarrow> error + ((int \<times> int) \<times> cell) list" where
  "agg_year_month aggfunc keys c m =
     agg_groups (if aggfunc = ''mean'' then group_mean else group_sum (zero_of c))
       (groupby (\<lambda>k. k) (\<lambda>k. False) (select m keys) (select m (cells c)))"

text \<open>Lines 250 to 254: the pivot, with the columns 1 to 12; a month that has no group
  is a missing cell.\<close>

definition pivot_row :: "((int \<times> int) \<times> cell) list \<Rightarrow> int \<Rightarrow> cell list" where
  "pivot_row agg y =
     map (\<lambda>mo. case map_of agg (y, mo) of None \<Rightarrow> NA | Some v \<Rightarrow> v) (map int [1..<13])"

definition pivot_years :: "((int \<times> int) \<times> cell) list \<Rightarrow> int list" where
  "pivot_years agg = sort (remdups (map (\<lambda>((y, mo), v). y) agg))"

definition heatmap_seasonality ::
  "frame option \<Rightarrow> string option \<Rightarrow> string \<Rightarrow> nat option \<Rightarrow> error + heat" where
  "heatmap_seasonality dfo metric aggfunc years_limit =
     (case dfo of
        None \<Rightarrow> Inr (Info ''No data for heatmap'')
      | Some df \<Rightarrow>
          if nrows df = 0 \<or> columns df = [] then Inr (Info ''No data for heatmap'')
          else (case metric of
            None \<Rightarrow> Inr (Info ''Select a metric to show the seasonality heatmap'')
          | Some mt \<Rightarrow>
              (case get_col df mt of
                 None \<Rightarrow> Inr (Info ''Select a metric to show the seasonality heatmap'')
               | Some c \<Rightarrow>
                   (case get_col df ''ANMOIS'' of
                      None \<Rightarrow> Inr (Info ''ANMOIS column required for seasonality heatmap'')
                    | Some pc \<Rightarrow>
                        ebind (year_month_of pc) (\<lambda>(ys, ms).
                          if mt = ''year'' \<or> mt = ''month'' then Inl ValueError
                          else
                            ebind (agg_year_month aggfunc (zip ys ms)
                                     (if mt = ''ANMOIS''
                                      then (case astype_int pc of Inr ps \<Rightarrow> IntCol ps | Inl e \<Rightarrow> pc)
                                      else c)
                                     (years_window years_limit ys)) (\<lambda>agg.
                            let grid = map (pivot_row agg) (pivot_years agg)
                            in if list_all (list_all (\<lambda>v. v = NA)) grid
                               then Inr (Info ''No data available for the selected metric / period to draw a heatmap'')
                               else Inr (Matrix (pivot_years agg) grid)))))))"

text \<open>One group of three rows whose metric values are 10, missing and 30.\<close>

definition c3_df :: frame where
  "c3_df = \<lparr>nrows = 3,
            columns = [(''ANMOIS'', IntCol [201901, 201901, 201901]),
                       (''CIE_PAX'', FloatCol [Some 10, None, Some 30])]\<rparr>"

text \<open>The values of a float column that are not missing.\<close>

definition present :: "real option list \<Rightarrow> real list" where
  "present vs = concat (map (\<lambda>v. case v of None \<Rightarrow> [] | Some x \<Rightarrow> [x]) vs)"

(*DEFS-END*)

section \<open>Properties of the recovery analysis\<close>

lemma keyed_filter:
  "[v. (k', v) \<leftarrow> [((c, y), v). (Some c, Some y, v) \<leftarrow> rows], k' = (c0, y0)]
   = [v. (c', y', v) \<leftarrow> rows, c' = Some c0, y' = Some y0]"
  by (induction rows) (auto split: option.splits)

lemma group_total:
  "sum_skipna [v. (k', v) \<leftarrow> [((c, y), v). (Some c, Some y, v) \<leftarrow> rows], k' = (c0, y0)]
   = total_of rows c0 y0"
  unfolding total_of_def keyed_filter ..

lemma no_key_total:
  assumes "(c0, y0) \<notin> set (map fst [((c, y), v). (Some c, Some y, v) \<leftarrow> rows])"
  shows "total_of rows c0 y0 = 0"
proof -
  have "[v. (c', y', v) \<leftarrow> rows, c' = Some c0, y' = Some y0] = []"
    using assms by (induction rows) (auto split: option.splits)
  then show ?thesis by (simp only: total_of_def sum_skipna_def) simp
qed

lemma map_of_year_slice_gen:
  "map_of [(c, v). ((c, y), v) \<leftarrow> map (\<lambda>k. (k, g k)) ks, y = y0] c0
   = (if (c0, y0) \<in> set ks then Some (g (c0, y0)) else None)"
  by (induction ks) auto

lemma fillna0_year_slice:
  "fillna0 (year_slice (agg_company_year rows) y0) c0 = total_of rows c0 y0"
  unfolding fillna0_def year_slice_def agg_company_year_def Let_def map_of_year_slice_gen
  using no_key_total[of c0 y0 rows] group_total[of c0 y0 rows]
  by auto

lemma recovery_w_rows: "recovery w_rows = Inr (Some w_tab)"
  by (simp add: w_rows_def w_tab_def recovery_def agg_company_year_def sum_skipna_def
      years_of_def baseline_year_of_def latest_year_of_def year_slice_def df_recovery_def
      recovery_row_of_def fillna0_def safe_pct_def)

text \<open>
  C1. Every record of the recovery table carries, for its company, the baseline-year
  total and the latest-year total, each the sum of the company's defined metric values in
  that year (0 when the company has no row there); \<open>abs_delta\<close> is latest minus baseline;
  \<open>pct_recovered\<close> is positive infinity when the baseline is 0 and the latest total is
  positive, 0 when the baseline is 0 and the latest total is not positive, and
  latest / baseline * 100 otherwise.
\<close>

theorem recovery_record_correct:
  assumes "recovery rows = Inr (Some tab)" and "r \<in> set tab"
  shows "\<exists>by ly. baseline_year_of (years_of (agg_company_year rows)) = Some by
           \<and> latest_year_of (years_of (agg_company_year rows)) = Some ly
           \<and> baseline_total r = total_of rows (company r) by
           \<and> latest_total r = total_of rows (company r) ly
           \<and> abs_delta r = latest_total r - baseline_total r
           \<and> pct_recovered r =
                (if baseline_total r = 0
                 then (if latest_total r > 0 then PInf else Fin 0)
                 else Fin (latest_total r / baseline_total r * 100))"
proof -
  let ?agg = "agg_company_year rows"
  from assms(1) obtain "by" ly where
    b: "baseline_year_of (years_of ?agg) = Some by" and
    l: "latest_year_of (years_of ?agg) = Some ly" and
    t: "tab = sort_key (\<lambda>r. - latest_total r)
                (df_recovery (year_slice ?agg by) (year_slice ?agg ly))"
    by (auto simp: recovery_def Let_def split: option.splits if_splits)
  from assms(2) t obtain c where
    r: "r = recovery_row_of (year_slice ?agg by) (year_slice ?agg ly) c"
    by (auto simp: df_recovery_def)
  show ?thesis
    using b l r by (simp add: recovery_row_of_def Let_def fillna0_year_slice safe_pct_def)
qed

theorem recovery_record_correct_witness:
  "recovery w_rows = Inr (Some w_tab)
   \<and> w_tab ! 1 \<in> set w_tab
   \<and> baseline_total (w_tab ! 1) = 0 \<and> latest_total (w_tab ! 1) = 50
   \<and> abs_delta (w_tab ! 1) = 50 \<and> pct_recovered (w_tab ! 1) = PInf
   \<and> (\<exists>by ly. baseline_total (w_tab ! 1) = total_of w_rows (company (w_tab ! 1)) by
          \<and> latest_total (w_tab ! 1) = total_of w_rows (company (w_tab ! 1)) ly)"
proof -
  have h1: "recovery w_rows = Inr (Some w_tab)" by (rule recovery_w_rows)
  have h2: "w_tab ! 1 \<in> set w_tab" by (simp add: w_tab_def)
  have h3: "baseline_total (w_tab ! 1) = 0 \<and> latest_total (w_tab ! 1) = 50
            \<and> abs_delta (w_tab ! 1) = 50 \<and> pct_recovered (w_tab ! 1) = PInf"
    by (simp add: w_tab_def)
  from recovery_record_correct [OF h1 h2] h1 h2 h3 show ?thesis by blast
qed

text \<open>
  C4. Among the selected carriers the ``worst'' selection leaves the infinite percentages
  out and the infinite ones are reported on their own, but the ``best'' selection does
  not leave them out: on the cohort above the new carrier B, whose percentage is
  infinite, heads the top recoveries.
\<close>

theorem best_includes_infinite:
  "recovery w_rows = Inr (Some w_tab)
   \<and> map company (best (top_companies 10 w_tab)) = [''B'', ''A'', ''C'']
   \<and> map pct_recovered (best (top_companies 10 w_tab)) = [PInf, Fin 50, Fin 0]
   \<and> map pct_recovered (worst (top_companies 10 w_tab)) = [Fin 0, Fin 50]
   \<and> map company (infers (top_companies 10 w_tab)) = [''B'']"
  using recovery_w_rows
  by (simp add: w_tab_def top_companies_def best_def worst_def numeric_pct_def infers_def)

section \<open>Properties of the period decomposition\<close>

lemma lt10_cases: "d < (10::nat) \<Longrightarrow> d \<in> {0, 1, 2, 3, 4, 5, 6, 7, 8, 9}"
  by auto

lemma digit_char_props:
  assumes "d < 10"
  shows "is_digit (digit_char d)" "digit_val (digit_char d) = d" "\<not> is_space (digit_char d)"
        "digit_char d \<noteq> CHR ''_''" "digit_char d \<noteq> CHR ''-''" "digit_char d \<noteq> CHR ''+''"
  using lt10_cases [OF assms]
  by (auto simp: is_digit_def digit_char_def digit_val_def is_space_def)

lemma digits_of_nonempty: "digits_of n \<noteq> []"
  by (subst digits_of.simps) simp

lemma digits_of_set: "c \<in> set (digits_of n) \<Longrightarrow> \<exists>d<10. c = digit_char d"
proof (induction n rule: digits_of.induct)
  case (1 n)
  show ?case
  proof (cases "n < 10")
    case True
    with "1.prems" show ?thesis by (subst (asm) digits_of.simps) auto
  next
    case False
    with "1.prems" have "c \<in> set (digits_of (n div 10)) \<or> c = digit_char (n mod 10)"
      by (subst (asm) digits_of.simps) auto
    then show ?thesis
    proof
      assume "c \<in> set (digits_of (n div 10))"
      with False "1.IH" show ?thesis by blast
    next
      assume "c = digit_char (n mod 10)"
      moreover have "n mod 10 < 10" by simp
      ultimately show ?thesis by blast
    qed
  qed
qed

lemma all_digits_ok: "xs \<noteq> [] \<Longrightarrow> \<forall>c\<in>set xs. is_digit c \<and> c \<noteq> CHR ''_'' \<Longrightarrow> digits_ok xs"
  by (induction xs rule: digits_ok.induct) auto

lemma digits_of_props:
  "digits_ok (digits_of n)"
  "filter (\<lambda>c. c \<noteq> CHR ''_'') (digits_of n) = digits_of n"
  "\<not> is_space (hd (digits_of n))" "\<not> is_space (last (digits_of n))"
  "hd (digits_of n) \<noteq> CHR ''-''" "hd (digits_of n) \<noteq> CHR ''+''"
proof -
  have a: "\<forall>c\<in>set (digits_of n). is_digit c \<and> c \<noteq> CHR ''_'' \<and> \<not> is_space c \<and> c \<noteq> CHR ''-'' \<and> c \<noteq> CHR ''+''"
  proof
    fix c assume "c \<in> set (digits_of n)"
    then obtain d where d: "d < 10" "c = digit_char d" using digits_of_set by blast
    show "is_digit c \<and> c \<noteq> CHR ''_'' \<and> \<not> is_space c \<and> c \<noteq> CHR ''-'' \<and> c \<noteq> CHR ''+''"
      unfolding d(2) using digit_char_props [OF d(1)] by simp
  qed
  have b: "\<forall>c\<in>set (digits_of n). is_digit c \<and> c \<noteq> CHR ''_''" using a by simp
  show "digits_ok (digits_of n)" by (rule all_digits_ok [OF digits_of_nonempty b])
  show "filter (\<lambda>c. c \<noteq> CHR ''_'') (digits_of n) = digits_of n" using a by (simp add: filter_id_conv)
  have h: "hd (digits_of n) \<in> set (digits_of n)" and l: "last (digits_of n) \<in> set (digits_of n)"
    using digits_of_nonempty by simp_all
  note hp = bspec [OF a h] and lp = bspec [OF a l]
  show "\<not> is_space (hd (digits_of n))" using hp by simp
  show "\<not> is_space (last (digits_of n))" using lp by simp
  show "hd (digits_of n) \<noteq> CHR ''-''" using hp by simp
  show "hd (digits_of n) \<noteq> CHR ''+''" using hp by simp
qed

lemma foldl_digits_of:
  "foldl (\<lambda>a c. 10 * a + digit_val c) 0 (digits_of n) = n"
proof (induction n rule: digits_of.induct)
  case (1 n)
  show ?case
  proof (cases "n < 10")
    case True
    then show ?thesis by (subst digits_of.simps) (simp add: digit_char_props)
  next
    case False
    have "n mod 10 < 10" by simp
    with False "1.IH" show ?thesis
      by (subst digits_of.simps) (simp add: digit_char_props)
  qed
qed

lemma digits_value_digits_of: "digits_value (digits_of n) = n"
  by (simp add: digits_value_def digits_of_props foldl_digits_of)

lemma strip_id: "xs \<noteq> [] \<Longrightarrow> \<not> is_space (hd xs) \<Longrightarrow> \<not> is_space (last xs) \<Longrightarrow> strip xs = xs"
proof -
  assume a: "xs \<noteq> []" "\<not> is_space (hd xs)" "\<not> is_space (last xs)"
  then have 1: "dropWhile is_space xs = xs" by (cases xs) auto
  from a have "rev xs \<noteq> []" "\<not> is_space (hd (rev xs))" by (simp_all add: hd_rev)
  then have 2: "dropWhile is_space (rev xs) = rev xs" by (cases "rev xs") auto
  show ?thesis by (simp add: strip_def 1 2)
qed

lemma py_int_digits_of: "py_int (digits_of n) = Some (int n)"
proof -
  obtain c r where cr: "digits_of n = c # r" using digits_of_nonempty by (cases "digits_of n") auto
  have s: "strip (digits_of n) = digits_of n"
    by (rule strip_id [OF digits_of_nonempty digits_of_props(3) digits_of_props(4)])
  have "c \<noteq> CHR ''-''" "c \<noteq> CHR ''+''" using digits_of_props(5,6)[of n] cr by auto
  then show ?thesis
    using digits_of_props(1)[of n] digits_value_digits_of[of n] s
    by (simp add: py_int_def cr)
qed

lemma py_int_neg_digits_of: "py_int (CHR ''-'' # digits_of n) = Some (- int n)"
proof -
  have "last (CHR ''-'' # digits_of n) = last (digits_of n)" using digits_of_nonempty by simp
  then have s: "strip (CHR ''-'' # digits_of n) = CHR ''-'' # digits_of n"
    using strip_id[of "CHR ''-'' # digits_of n"] digits_of_props(4)[of n]
    by (simp add: is_space_def)
  show ?thesis
    using digits_of_props(1)[of n] digits_value_digits_of[of n]
    by (simp add: py_int_def s)
qed

lemma py_int_str_int: "py_int (str_int i) = Some i"
  by (simp add: str_int_def py_int_digits_of py_int_neg_digits_of)

lemma sequence_map_Inr:
  "(\<And>x. x \<in> set xs \<Longrightarrow> f x = Inr (g x)) \<Longrightarrow> sequence (map f xs) = Inr (map g xs)"
  by (induction xs) auto

lemma map_of_replace:
  "map_of (map (\<lambda>(a, b). if a = n then (a, c) else (a, b)) xs) n'
   = (if n' = n then (if map_of xs n = None then None else Some c) else map_of xs n')"
  by (induction xs) auto

lemma get_col_set_col:
  "get_col (set_col df n c) n' = (if n' = n then Some c else get_col df n')"
proof (cases "has_col df n")
  case True
  then have "map_of (columns df) n \<noteq> None" by (simp add: has_col_def map_of_eq_None_iff)
  with True show ?thesis by (auto simp: get_col_def set_col_def map_of_replace)
next
  case False
  then have "map_of (columns df) n = None" by (simp add: has_col_def map_of_eq_None_iff)
  with False show ?thesis
    by (auto simp: get_col_def set_col_def map_add_def split: option.splits)
qed

lemma copy_nth: "copy h r = (h1, r1) \<Longrightarrow> r1 = length h \<and> h1 = h @ [h ! r]"
  by (auto simp: copy_def)

lemma assign_col_fresh:
  "assign_col (h @ [df]) (length h) n c = h @ [set_col df n c]"
  by (simp add: assign_col_def)

lemma astype_int_encoded:
  assumes "\<forall>p\<in>set ps. int64_ok p"
  shows "astype_int (ObjCol (map (\<lambda>p. S (str_int p)) ps)) = Inr ps"
proof -
  have "sequence (map (\<lambda>p. cell_to_int (S (str_int p))) ps) = Inr (map (\<lambda>p. p) ps)"
    using assms by (intro sequence_map_Inr) (simp add: py_int_str_int)
  then show ?thesis by (simp add: comp_def)
qed

lemma ensure_year_ints:
  assumes "get_col (h ! r) ''ANMOIS'' = Some c"
      and "c = IntCol ps \<or> (\<not> is_integer_dtype c \<and> astype_int c = Inr ps)"
      and "ensure_year_column h r = (h', r')"
  shows "get_col (h' ! r') ''year'' = Some (IntCol (map (\<lambda>p. p div 100) ps))
       \<and> get_col (h' ! r') ''month'' = Some (IntCol (map (\<lambda>p. p mod 100) ps))"
  using assms
  by (auto simp: ensure_year_column_def copy_def assign_col_fresh get_col_set_col Let_def)

text \<open>
  C6. When the period column holds period codes, as integers or as the decimal texts of
  integers, every row whose code is \<open>y * 100 + m\<close> with \<open>1 \<le> m \<le> 12\<close> gets
  \<open>year = p div 100 = y\<close> and \<open>month = p mod 100 = m\<close>, so that
  \<open>year * 100 + month\<close> is the code again.
\<close>

theorem period_decompose_recompose:
  assumes col: "get_col (h ! r) ''ANMOIS'' = Some c"
      and enc: "c = IntCol ps \<or> (c = ObjCol (map (\<lambda>p. S (str_int p)) ps) \<and> (\<forall>p\<in>set ps. int64_ok p))"
      and i: "i < length ps"
      and p: "ps ! i = y * 100 + m" and m: "1 \<le> m" "m \<le> 12"
      and res: "ensure_year_column h r = (h', r')"
  shows "\<exists>ys ms. get_col (h' ! r') ''year'' = Some (IntCol ys)
           \<and> get_col (h' ! r') ''month'' = Some (IntCol ms)
           \<and> length ys = length ps \<and> length ms = length ps
           \<and> ys ! i = ps ! i div 100 \<and> ms ! i = ps ! i mod 100
           \<and> ys ! i = y \<and> ms ! i = m
           \<and> ys ! i * 100 + ms ! i = ps ! i"
proof -
  from enc have "c = IntCol ps \<or> (\<not> is_integer_dtype c \<and> astype_int c = Inr ps)"
    using astype_int_encoded by auto
  from ensure_year_ints [OF col this res] i p m show ?thesis by auto
qed

theorem period_decompose_recompose_witness:
  "get_col ([p_df] ! 0) ''ANMOIS'' = Some (ObjCol (map (\<lambda>p. S (str_int p)) [201901, 202412]))
   \<and> (\<exists>ys ms. get_col (fst (ensure_year_column [p_df] 0) ! snd (ensure_year_column [p_df] 0)) ''year''
                 = Some (IntCol ys)
          \<and> get_col (fst (ensure_year_column [p_df] 0) ! snd (ensure_year_column [p_df] 0)) ''month''
                 = Some (IntCol ms)
          \<and> ys ! 1 = 2024 \<and> ms ! 1 = 12 \<and> ys ! 1 * 100 + ms ! 1 = 202412)"
proof -
  let ?ps = "[201901, 202412] :: int list"
  have enc: "map (\<lambda>p. S (str_int p)) ?ps = [S ''201901'', S ''202412'']"
    by (simp add: str_int_def digits_of.simps digit_char_def)
  have c: "get_col ([p_df] ! 0) ''ANMOIS'' = Some (ObjCol (map (\<lambda>p. S (str_int p)) ?ps))"
    unfolding enc by (simp add: p_df_def get_col_def)
  have ok: "\<forall>p\<in>set ?ps. int64_ok p" by (simp add: int64_ok_def)
  have e: "ObjCol (map (\<lambda>p. S (str_int p)) ?ps) = IntCol ?ps
           \<or> (ObjCol (map (\<lambda>p. S (str_int p)) ?ps) = ObjCol (map (\<lambda>p. S (str_int p)) ?ps)
               \<and> (\<forall>p\<in>set ?ps. int64_ok p))"
    using ok by simp
  have i: "(1::nat) < length ?ps" by simp
  have p: "?ps ! 1 = 2024 * 100 + 12" by simp
  have r: "ensure_year_column [p_df] 0
           = (fst (ensure_year_column [p_df] 0), snd (ensure_year_column [p_df] 0))"
    by simp
  have m1: "(1::int) \<le> 12" by simp
  have m2: "(12::int) \<le> 12" by simp
  from period_decompose_recompose [OF c e i p m1 m2 r] obtain ys ms where
    a: "get_col (fst (ensure_year_column [p_df] 0) ! snd (ensure_year_column [p_df] 0)) ''year''
          = Some (IntCol ys)"
       "get_col (fst (ensure_year_column [p_df] 0) ! snd (ensure_year_column [p_df] 0)) ''month''
          = Some (IntCol ms)"
       "ys ! 1 = 2024" "ms ! 1 = 12"
    by blast
  have "ys ! 1 * 100 + ms ! 1 = 202412" using a(3,4) by simp
  with a have "\<exists>ys ms. get_col (fst (ensure_year_column [p_df] 0) ! snd (ensure_year_column [p_df] 0)) ''year''
                 = Some (IntCol ys)
          \<and> get_col (fst (ensure_year_column [p_df] 0) ! snd (ensure_year_column [p_df] 0)) ''month''
                 = Some (IntCol ms)
          \<and> ys ! 1 = 2024 \<and> ms ! 1 = 12 \<and> ys ! 1 * 100 + ms ! 1 = 202412"
    by blast
  with c show ?thesis by (rule conjI)
qed

section \<open>Properties of the filters and tables\<close>

lemmas run_defs = copy_def ensure_year_column_def get_col_def assign_col_def
      set_col_def has_col_def filters_of_def make_tables_def apply_filters_def ebind_def tables_of_def
      pick_metric_col_def metric_valid_def numeric_cols_def make_timeseries_def make_by_region_def
      make_geo_def sum_by_def agg_groups_def groupby_def group_sum_def dropna_def select_def
      select_rows_def sort_desc_def filter_rows_def filter_isin_def filter_eq_def filter_year_def
      year_mask_def filter_and_make_def Let_def

text \<open>
  C7. The pipeline does raise for a missing column: on a dataset without the country
  column and with a country filter, \<open>make_tables\<close> skips the filter and returns its
  tables, but \<open>filter_and_make\<close> then reads \<open>CIE_PAYS\<close> without a guard and the
  \<open>KeyError\<close> propagates to the caller.
\<close>

theorem filter_and_make_keyerror:
  "has_col c7_df ''CIE_PAYS'' = False
   \<and> snd (filter_and_make [c7_df] 0 None None (Some [S ''FRANCE'']) (Some ''CIE_PAX'') None)
       = Inl KeyError
   \<and> snd (make_tables [c7_df] 0 (filters_of None None (Some [S ''FRANCE'']) None) (Some ''CIE_PAX''))
       = Inr \<lparr>timeseries = [(I 2019, I 100), (I 2020, I 150)], by_region = [], geo = []\<rparr>"
  by (simp add: c7_df_def run_defs)

section \<open>The callers' frames are left alone\<close>

lemma assign_col_take:
  "n \<le> r \<Longrightarrow> take n (assign_col h r name c) = take n h"
  by (simp add: assign_col_def)

lemma assign_col_length: "length (assign_col h r name c) = length h"
  by (simp add: assign_col_def)

lemma ensure_year_take:
  assumes "n \<le> r" and "r \<le> length h"
  shows "take n (fst (ensure_year_column h r)) = take n h"
  using assms
  by (auto simp: ensure_year_column_def copy_def assign_col_take Let_def
           split: option.splits sum.splits)

lemma ensure_year_length: "length h \<le> length (fst (ensure_year_column h r))"
  by (auto simp: ensure_year_column_def copy_def assign_col_length Let_def
           split: option.splits sum.splits)

lemma ensure_year_ref:
  "r < length h \<Longrightarrow> snd (ensure_year_column h r) < length (fst (ensure_year_column h r))"
  by (auto simp: ensure_year_column_def copy_def assign_col_length Let_def
           split: option.splits sum.splits)

lemma make_tables_take:
  assumes "n \<le> length h"
  shows "take n (fst (make_tables h r flt metric)) = take n h"
proof -
  have "take n (fst (ensure_year_column (h @ [h ! r]) (length h))) = take n (h @ [h ! r])"
    using assms by (intro ensure_year_take) simp_all
  then show ?thesis using assms
    by (simp add: make_tables_def copy_def split_beta Let_def)
qed

lemma make_tables_length: "length h \<le> length (fst (make_tables h r flt metric))"
proof -
  have "length (h @ [h ! r]) \<le> length (fst (ensure_year_column (h @ [h ! r]) (length h)))"
    by (rule ensure_year_length)
  then show ?thesis by (simp add: make_tables_def copy_def split_beta Let_def)
qed

lemma filter_and_make_take:
  assumes "n \<le> length h"
  shows "take n (fst (filter_and_make h r ymin ymax cs metric natio)) = take n h"
proof -
  let ?h1 = "h @ [h ! r]"
  let ?e1 = "ensure_year_column ?h1 (length h)"
  let ?h2 = "fst ?e1" let ?r2 = "snd ?e1"
  let ?flt = "filters_of ymin ymax cs natio"
  let ?m = "make_tables ?h2 ?r2 ?flt metric"
  let ?h3 = "fst ?m"
  let ?h4 = "?h3 @ [?h3 ! ?r2]"
  let ?e2 = "ensure_year_column ?h4 (length ?h3)"
  have l2: "length h \<le> length ?h2" using ensure_year_length[of ?h1 "length h"] by simp
  have l3: "length ?h2 \<le> length ?h3" by (rule make_tables_length)
  have t2: "take n ?h2 = take n h"
    using ensure_year_take[of n "length h" ?h1] assms by simp
  have t3: "take n ?h3 = take n ?h2"
    using make_tables_take[of n ?h2] assms l2 by simp
  have t5: "take n (fst ?e2) = take n ?h4"
    using ensure_year_take[of n "length ?h3" ?h4] assms l2 l3 by simp
  have t4: "take n ?h4 = take n ?h3" using assms l2 l3 by simp
  have "fst (filter_and_make h r ymin ymax cs metric natio) = ?h3
        \<or> fst (filter_and_make h r ymin ymax cs metric natio) = fst ?e2"
    by (simp add: filter_and_make_def copy_def split_beta Let_def split: sum.splits)
  then show ?thesis using t2 t3 t4 t5 by auto
qed

lemma ensure_year_column_in_place:
  "ensure_year_column [no_period_df] 0
   = ([\<lparr>nrows = 1, columns = [(''CIE_PAX'', IntCol [100]), (''year'', ObjCol [NA])]\<rparr>], 0)"
  by (simp add: no_period_df_def na_col_def run_defs)

text \<open>
  C10. \<open>make_tables\<close> and \<open>filter_and_make\<close> leave every frame of the store as it was,
  their argument included: whatever the filters and the metric, and whether the call
  returns or raises, the store after the call is the store before it followed by the
  frames the call allocated. (The helper \<open>_ensure_year_column\<close> alone does assign to its
  argument when the period column is absent; both callers hand it a copy.)
\<close>

theorem inputs_not_modified:
  assumes "r < length h"
  shows "fst (make_tables h r flt metric) ! r = h ! r
       \<and> take (length h) (fst (make_tables h r flt metric)) = h
       \<and> fst (filter_and_make h r ymin ymax cs metric natio) ! r = h ! r
       \<and> take (length h) (fst (filter_and_make h r ymin ymax cs metric natio)) = h"
proof -
  have a: "take (length h) (fst (make_tables h r flt metric)) = h"
    using make_tables_take[of "length h" h r flt metric] by simp
  have b: "take (length h) (fst (filter_and_make h r ymin ymax cs metric natio)) = h"
    using filter_and_make_take[of "length h" h r ymin ymax cs metric natio] by simp
  have "take (length h) (fst (make_tables h r flt metric)) ! r = fst (make_tables h r flt metric) ! r"
    using assms by simp
  moreover have "take (length h) (fst (filter_and_make h r ymin ymax cs metric natio)) ! r
                 = fst (filter_and_make h r ymin ymax cs metric natio) ! r"
    using assms by simp
  ultimately show ?thesis using a b by simp
qed

theorem inputs_not_modified_witness:
  "(0::nat) < length [c7_df]
   \<and> fst (make_tables [c7_df] 0 no_filters (Some ''CIE_PAX'')) ! 0 = c7_df
   \<and> fst (filter_and_make [c7_df] 0 (Some 2019) (Some 2019) None (Some ''CIE_PAX'') None) ! 0 = c7_df
   \<and> get_col (prepared [c7_df] 0) ''year'' = Some (IntCol [2019, 2020])
   \<and> get_col c7_df ''year'' = None"
proof -
  have l: "(0::nat) < length [c7_df]" by simp
  have p: "get_col (prepared [c7_df] 0) ''year'' = Some (IntCol [2019, 2020])
           \<and> get_col c7_df ''year'' = None"
    by (simp add: prepared_def c7_df_def run_defs)
  from inputs_not_modified [OF l, of no_filters "Some ''CIE_PAX''" "Some 2019" "Some 2019" None None]
  have "fst (make_tables [c7_df] 0 no_filters (Some ''CIE_PAX'')) ! 0 = c7_df"
       "fst (filter_and_make [c7_df] 0 (Some 2019) (Some 2019) None (Some ''CIE_PAX'') None) ! 0 = c7_df"
    by simp_all
  with l p show ?thesis by simp
qed

section \<open>The metric column and the empty tables\<close>

lemma make_tables_snd:
  "snd (make_tables h r flt metric)
   = ebind (apply_filters (prepared h r) flt) (\<lambda>df. tables_of df metric)"
  by (simp add: make_tables_def prepared_def split_beta Let_def)

lemma pick_fallback:
  assumes "\<not> metric_valid df metric"
  shows "pick_metric_col df metric
         = (if has_col df ''CIE_PAX'' then Some ''CIE_PAX''
            else case numeric_cols df of [] \<Rightarrow> None | n # _ \<Rightarrow> Some n)"
  using assms by (simp add: pick_metric_col_def)

lemma pick_self_pax:
  "has_col df ''CIE_PAX'' \<Longrightarrow> pick_metric_col df (Some ''CIE_PAX'') = Some ''CIE_PAX''"
  by (simp add: pick_metric_col_def)

lemma pick_self_first:
  "\<not> has_col df ''CIE_PAX'' \<Longrightarrow> numeric_cols df = n # ns \<Longrightarrow> pick_metric_col df (Some n) = Some n"
  by (simp add: pick_metric_col_def)

lemma tables_of_pick:
  "pick_metric_col df m1 = pick_metric_col df m2 \<Longrightarrow> tables_of df m1 = tables_of df m2"
  by (simp add: tables_of_def)

lemma tables_of_none:
  "pick_metric_col df m = None
   \<Longrightarrow> tables_of df m = Inr \<lparr>timeseries = [], by_region = [], geo = []\<rparr>"
  by (simp add: tables_of_def make_timeseries_def make_by_region_def make_geo_def ebind_def
           split: option.splits)

lemma tables_of_fallback:
  assumes "\<not> metric_valid df metric"
  shows "tables_of df metric
         = (if has_col df ''CIE_PAX'' then tables_of df (Some ''CIE_PAX'')
            else case numeric_cols df of
                   [] \<Rightarrow> Inr \<lparr>timeseries = [], by_region = [], geo = []\<rparr>
                 | n # _ \<Rightarrow> tables_of df (Some n))"
proof (cases "has_col df ''CIE_PAX''")
  case True
  then have "pick_metric_col df metric = pick_metric_col df (Some ''CIE_PAX'')"
    using pick_fallback[OF assms] pick_self_pax[of df] by simp
  then have "tables_of df metric = tables_of df (Some ''CIE_PAX'')" by (rule tables_of_pick)
  with True show ?thesis by simp
next
  case False
  show ?thesis
  proof (cases "numeric_cols df")
    case Nil
    then have "pick_metric_col df metric = None" using pick_fallback[OF assms] False by simp
    then have "tables_of df metric = Inr \<lparr>timeseries = [], by_region = [], geo = []\<rparr>"
      by (rule tables_of_none)
    with False Nil show ?thesis by simp
  next
    case (Cons n ns)
    then have "pick_metric_col df metric = pick_metric_col df (Some n)"
      using pick_fallback[OF assms] False pick_self_first[of df n ns] by simp
    then have "tables_of df metric = tables_of df (Some n)" by (rule tables_of_pick)
    with False Cons show ?thesis by simp
  qed
qed

lemma no_rows_cells:
  "no_rows df \<Longrightarrow> get_col df name = Some c \<Longrightarrow> cells c = []"
  by (auto simp: no_rows_def get_col_def list_all_iff dest!: map_of_SomeD)

lemma sum_by_empty: "sum_by [] c = Inr []"
  by (simp add: sum_by_def agg_groups_def groupby_def)

lemma no_rows_tables:
  assumes "no_rows df" and "tables_of df metric = Inr t"
  shows "timeseries t = [] \<and> by_region t = []"
proof -
  let ?mc = "pick_metric_col df metric"
  from assms(2) obtain ts br g where
    ts: "make_timeseries df ?mc = Inr ts" and br: "make_by_region df ?mc = Inr br"
    and t: "t = \<lparr>timeseries = ts, by_region = br, geo = g\<rparr>"
    by (auto simp: tables_of_def ebind_def Let_def split: sum.splits)
  have "ts = []"
    using ts no_rows_cells[OF assms(1)]
    by (auto simp: make_timeseries_def dropna_def split: option.splits list.splits if_splits)
  moreover have "br = []"
    using br no_rows_cells[OF assms(1)]
    by (auto simp: make_by_region_def sum_by_empty ebind_def sort_desc_def
             split: option.splits list.splits if_splits)
  ultimately show ?thesis using t by simp
qed

text \<open>
  C2, as stated, fails: a requested metric that the dataset does not have, or that names a
  text column, does not give empty tables. \<open>make_tables\<close> then aggregates \<open>CIE_PAX\<close>.
\<close>

theorem metric_absent_not_empty:
  "get_col c2_df ''FOO'' = None
   \<and> snd (make_tables [c2_df] 0 no_filters (Some ''FOO''))
       = Inr \<lparr>timeseries = [(I 2019, F 10), (I 2020, F 30)],
              by_region = [(S ''FRANCE'', F 40), (S ''ITALIE'', F 0)], geo = []\<rparr>
   \<and> get_col c2_df ''CIE_NAT'' = Some (ObjCol [S ''F'', S ''E'', S ''F''])
   \<and> snd (make_tables [c2_df] 0 no_filters (Some ''CIE_NAT''))
       = Inr \<lparr>timeseries = [(I 2019, F 10), (I 2020, F 30)],
              by_region = [(S ''FRANCE'', F 40), (S ''ITALIE'', F 0)], geo = []\<rparr>"
  by (simp add: c2_df_def no_filters_def run_defs)

text \<open>
  C2, amended. When the requested metric is absent or not numeric, \<open>make_tables\<close>
  aggregates \<open>CIE_PAX\<close> if the filtered dataset has that column, otherwise its first
  numeric column, and returns empty tables only when it has neither. When no rows remain
  after filtering, the time series and the regional ranking that it returns are empty.
\<close>

theorem make_tables_metric_fallback:
  assumes "apply_filters (prepared h r) flt = Inr df"
  shows "(\<not> metric_valid df metric \<longrightarrow>
            snd (make_tables h r flt metric)
            = (if has_col df ''CIE_PAX'' then tables_of df (Some ''CIE_PAX'')
               else case numeric_cols df of
                      [] \<Rightarrow> Inr \<lparr>timeseries = [], by_region = [], geo = []\<rparr>
                    | n # _ \<Rightarrow> tables_of df (Some n)))
       \<and> (no_rows df \<longrightarrow>
            (\<forall>t. snd (make_tables h r flt metric) = Inr t \<longrightarrow> timeseries t = [] \<and> by_region t = []))"
  using assms tables_of_fallback[of df metric] no_rows_tables[of df metric]
  by (simp add: make_tables_snd ebind_def)

lemmas table_defs = get_col_def has_col_def ebind_def tables_of_def pick_metric_col_def
  metric_valid_def numeric_cols_def make_timeseries_def make_by_region_def make_geo_def sum_by_def
  agg_groups_def groupby_def group_sum_def dropna_def select_def sort_desc_def Let_def

theorem make_tables_metric_fallback_witness:
  "apply_filters (prepared [c2_df] 0) no_filters = Inr c2_prepared
   \<and> metric_valid c2_prepared (Some ''FOO'') = False
   \<and> has_col c2_prepared ''CIE_PAX''
   \<and> snd (make_tables [c2_df] 0 no_filters (Some ''FOO'')) = tables_of c2_prepared (Some ''CIE_PAX'')
   \<and> tables_of c2_prepared (Some ''CIE_PAX'')
       = Inr \<lparr>timeseries = [(I 2019, F 10), (I 2020, F 30)],
              by_region = [(S ''FRANCE'', F 40), (S ''ITALIE'', F 0)], geo = []\<rparr>
   \<and> apply_filters (prepared [c2_df] 0) late_filters = Inr c2_empty
   \<and> no_rows c2_empty
   \<and> snd (make_tables [c2_df] 0 late_filters (Some ''CIE_PAX''))
       = Inr \<lparr>timeseries = [], by_region = [], geo = []\<rparr>"
proof -
  have p: "prepared [c2_df] 0 = c2_prepared"
    by (simp add: prepared_def c2_df_def c2_prepared_def run_defs)
  have a: "apply_filters (prepared [c2_df] 0) no_filters = Inr c2_prepared"
    unfolding p by (simp add: no_filters_def apply_filters_def ebind_def)
  have nv: "metric_valid c2_prepared (Some ''FOO'') = False"
    by (simp add: c2_prepared_def metric_valid_def get_col_def)
  have hc: "has_col c2_prepared ''CIE_PAX''" by (simp add: c2_prepared_def has_col_def)
  have ev: "tables_of c2_prepared (Some ''CIE_PAX'')
       = Inr \<lparr>timeseries = [(I 2019, F 10), (I 2020, F 30)],
              by_region = [(S ''FRANCE'', F 40), (S ''ITALIE'', F 0)], geo = []\<rparr>"
    by (simp add: c2_prepared_def table_defs)
  have b: "apply_filters (prepared [c2_df] 0) late_filters = Inr c2_empty"
    unfolding p by (simp add: late_filters_def c2_prepared_def c2_empty_def run_defs)
  have nr: "no_rows c2_empty" by (simp add: no_rows_def c2_empty_def)
  have r: "snd (make_tables [c2_df] 0 late_filters (Some ''CIE_PAX''))
       = Inr \<lparr>timeseries = [], by_region = [], geo = []\<rparr>"
    unfolding make_tables_snd b by (simp add: c2_empty_def table_defs)
  from make_tables_metric_fallback [OF a, of "Some ''FOO''"] nv hc
  have f: "snd (make_tables [c2_df] 0 no_filters (Some ''FOO'')) = tables_of c2_prepared (Some ''CIE_PAX'')"
    by simp
  from make_tables_metric_fallback [OF b, of "Some ''CIE_PAX''"] nr r
  have "timeseries \<lparr>timeseries = [], by_region = [], geo = []\<rparr> = ([] :: (cell \<times> cell) list)"
    by simp
  with a nv hc ev b nr r f show ?thesis by simp
qed

end
